theory Spec2Isabelle
  imports Complex_Main
begin

section \<open>JavaScript values\<close>

text \<open>
  The untyped data that crosses the dispatcher: what \<^verbatim>\<open>JSON.parse\<close> produces, plus
  \<^verbatim>\<open>undefined\<close>. The type \<open>'n\<close> stands for the JavaScript number type with its own
  \<open>+\<close>, \<open>-\<close> and \<open>\<le>\<close>; nothing below assumes any law of arithmetic about it, so it may
  be read as the IEEE doubles (NaN included). An object is the list of its own
  properties; reading a property takes the first pair with that key.
\<close>

datatype 'n jsval =
    JUndefined
  | JNull
  | JBool bool
  | JNum 'n
  | JStr string
  | JArr "'n jsval list"
  | JObj "(string \<times> 'n jsval) list"

text \<open>\<^verbatim>\<open>data[key]\<close> on the own properties of a plain object: a missing key reads as
  \<^verbatim>\<open>undefined\<close>.\<close>

definition get_prop :: "(string \<times> 'n jsval) list \<Rightarrow> string \<Rightarrow> 'n jsval" where
  "get_prop ps k = (case map_of ps k of None \<Rightarrow> JUndefined | Some v \<Rightarrow> v)"

text \<open>\<^verbatim>\<open>key in data\<close> on the own properties of a plain object.\<close>

definition has_own :: "(string \<times> 'n jsval) list \<Rightarrow> string \<Rightarrow> bool" where
  "has_own ps k = (map_of ps k \<noteq> None)"

text \<open>The global \<^verbatim>\<open>isNaN\<close> on a number: NaN is the one number that is not \<open>\<le>\<close> itself.\<close>

definition isNaN :: "'n::ord \<Rightarrow> bool" where
  "isNaN x = (\<not> x \<le> x)"

section \<open>The validation library (zod 3), as far as the service uses it\<close>

text \<open>
  The schemas of the service are \<^verbatim>\<open>z.object({...})\<close> over \<^verbatim>\<open>z.number()\<close> fields. The
  library is not part of the repository; the definitions below follow its documented
  behaviour: a schema parses a value at a path and either returns the parsed value or
  a list of issues; an object schema parses every declared key, gathers the issues of
  all of them, and returns a fresh object holding the declared keys only (unknown
  keys are stripped).
\<close>

datatype ZodParsedType =
    T_undefined | T_null | T_boolean | T_number | T_nan | T_string | T_array | T_object

fun getParsedType :: "'n::ord jsval \<Rightarrow> ZodParsedType" where
  "getParsedType JUndefined = T_undefined"
| "getParsedType JNull = T_null"
| "getParsedType (JBool b) = T_boolean"
| "getParsedType (JNum n) = (if isNaN n then T_nan else T_number)"
| "getParsedType (JStr s) = T_string"
| "getParsedType (JArr xs) = T_array"
| "getParsedType (JObj ps) = T_object"

fun type_name :: "ZodParsedType \<Rightarrow> string" where
  "type_name T_undefined = ''undefined''"
| "type_name T_null = ''null''"
| "type_name T_boolean = ''boolean''"
| "type_name T_number = ''number''"
| "type_name T_nan = ''nan''"
| "type_name T_string = ''string''"
| "type_name T_array = ''array''"
| "type_name T_object = ''object''"

text \<open>An issue of code \<^verbatim>\<open>invalid_type\<close>, the only code these schemas raise.\<close>

datatype ZodIssue =
  invalid_type (expected: ZodParsedType) (received: ZodParsedType) (path: "string list")

text \<open>The default error map's message for an \<^verbatim>\<open>invalid_type\<close> issue.\<close>

definition issue_message :: "ZodIssue \<Rightarrow> string" where
  "issue_message i =
     (if received i = T_undefined then ''Required''
      else ''Expected '' @ type_name (expected i) @ '', received '' @ type_name (received i))"

datatype ZodError = ZodError (issues: "ZodIssue list")

text \<open>A schema's internal parser: the path so far and the data, to the issues or the
  parsed value.\<close>

type_synonym 'n ZodType = "string list \<Rightarrow> 'n jsval \<Rightarrow> ZodIssue list + 'n jsval"

definition z_number :: "'n::ord ZodType" where
  "z_number pth data =
     (if getParsedType data \<noteq> T_number
      then Inl [invalid_type T_number (getParsedType data) pth]
      else Inr data)"

text \<open>The issues of the declared keys, in the order of the shape.\<close>

fun shape_issues :: "(string \<times> 'n ZodType) list \<Rightarrow> string list \<Rightarrow> (string \<times> 'n jsval) list \<Rightarrow> ZodIssue list" where
  "shape_issues [] pth ps = []"
| "shape_issues ((key, validator) # shape) pth ps =
     (case validator (pth @ [key]) (get_prop ps key) of
        Inl is \<Rightarrow> is @ shape_issues shape pth ps
      | Inr v \<Rightarrow> shape_issues shape pth ps)"

text \<open>The parsed object: a declared key is set when its parsed value is defined or the
  key is present in the data; the key \<^verbatim>\<open>__proto__\<close> is never set.\<close>

fun shape_pairs :: "(string \<times> 'n ZodType) list \<Rightarrow> string list \<Rightarrow> (string \<times> 'n jsval) list \<Rightarrow> (string \<times> 'n jsval) list" where
  "shape_pairs [] pth ps = []"
| "shape_pairs ((key, validator) # shape) pth ps =
     (case validator (pth @ [key]) (get_prop ps key) of
        Inl is \<Rightarrow> shape_pairs shape pth ps
      | Inr v \<Rightarrow>
          (if key \<noteq> ''__proto__'' \<and> (v \<noteq> JUndefined \<or> has_own ps key)
           then (key, v) # shape_pairs shape pth ps
           else shape_pairs shape pth ps))"

definition z_object :: "(string \<times> 'n::ord ZodType) list \<Rightarrow> 'n ZodType" where
  "z_object shape pth data =
     (case data of
        JObj ps \<Rightarrow>
          (if shape_issues shape pth ps = [] then Inr (JObj (shape_pairs shape pth ps))
           else Inl (shape_issues shape pth ps))
      | _ \<Rightarrow> Inl [invalid_type T_object (getParsedType data) pth])"

datatype 'i SafeParseReturnType =
    SafeParseSuccess (data: 'i)
  | SafeParseError (error: ZodError)

text \<open>\<^verbatim>\<open>Schema<Input>\<close>, seen through the one member the dispatcher calls:
  \<^verbatim>\<open>safeParse\<close>, from the untyped value to the typed value or the error.\<close>

type_synonym ('u, 'i) Schema = "'u \<Rightarrow> 'i SafeParseReturnType"

definition safeParse :: "'n ZodType \<Rightarrow> ('n jsval, 'n jsval) Schema" where
  "safeParse schema x =
     (case schema [] x of
        Inr v \<Rightarrow> SafeParseSuccess v
      | Inl is \<Rightarrow> SafeParseError (ZodError is))"

subsection \<open>The message of a validation error\<close>

text \<open>\<^verbatim>\<open>ZodError.message\<close> is \<^verbatim>\<open>JSON.stringify(issues, null, 2)\<close>.\<close>

definition hex_digit :: "nat \<Rightarrow> char" where
  "hex_digit n = ''0123456789abcdef'' ! (n mod 16)"

definition json_escape :: "char \<Rightarrow> string" where
  "json_escape c =
     (if c = CHR 0x22 then [CHR 0x5C, CHR 0x22]
      else if c = CHR 0x5C then [CHR 0x5C, CHR 0x5C]
      else if c = CHR 0x08 then [CHR 0x5C, CHR ''b'']
      else if c = CHR 0x09 then [CHR 0x5C, CHR ''t'']
      else if c = CHR 0x0A then [CHR 0x5C, CHR ''n'']
      else if c = CHR 0x0C then [CHR 0x5C, CHR ''f'']
      else if c = CHR 0x0D then [CHR 0x5C, CHR ''r'']
      else if (of_char c :: nat) < 32
        then [CHR 0x5C, CHR ''u'', CHR ''0'', CHR ''0'',
              hex_digit (of_char c div 16), hex_digit (of_char c)]
      else [c])"

definition json_string :: "string \<Rightarrow> string" where
  "json_string s = [CHR 0x22] @ concat (map json_escape s) @ [CHR 0x22]"

definition indent :: "nat \<Rightarrow> string" where
  "indent n = replicate n CHR '' ''"

fun lines_sep :: "string list \<Rightarrow> string" where
  "lines_sep [] = []"
| "lines_sep [x] = x"
| "lines_sep (x # y # xs) = x @ [CHR '','', CHR 0x0A] @ lines_sep (y # xs)"

text \<open>An array or object whose rendered members are \<open>xs\<close>, opened at depth \<open>n\<close>.\<close>

definition json_block :: "char \<Rightarrow> char \<Rightarrow> nat \<Rightarrow> string list \<Rightarrow> string" where
  "json_block l r n xs =
     (if xs = [] then [l, r]
      else [l, CHR 0x0A] @ lines_sep (map (\<lambda>x. indent (n + 2) @ x) xs)
           @ [CHR 0x0A] @ indent n @ [r])"

definition json_member :: "string \<Rightarrow> string \<Rightarrow> string" where
  "json_member k v = json_string k @ '': '' @ v"

definition json_issue :: "ZodIssue \<Rightarrow> string" where
  "json_issue i =
     json_block CHR ''{'' CHR ''}'' 2
       [json_member ''code'' (json_string ''invalid_type''),
        json_member ''expected'' (json_string (type_name (expected i))),
        json_member ''received'' (json_string (type_name (received i))),
        json_member ''path'' (json_block CHR ''['' CHR '']'' 4 (map json_string (path i))),
        json_member ''message'' (json_string (issue_message i))]"

definition message :: "ZodError \<Rightarrow> string" where
  "message e = json_block CHR ''['' CHR '']'' 0 (map json_issue (issues e))"

section \<open>The framework\<close>

text \<open>
  An \<^verbatim>\<open>async\<close> function runs against the world \<open>'s\<close> (everything an implementation
  may read or change) and either resolves with a value or rejects with a reason.
\<close>

type_synonym ('o, 'e, 's) Promise = "'s \<Rightarrow> ('e + 'o) \<times> 's"

definition Promise_resolve :: "'o \<Rightarrow> ('o, 'e, 's) Promise" where
  "Promise_resolve v s = (Inr v, s)"

record ('u, 'i, 'o, 'e, 's) ApiMethodSpec =
  input :: "('u, 'i) Schema"
  "method" :: "'i \<Rightarrow> ('o, 'e, 's) Promise"

definition createApiMethod :: "('u, 'i, 'o, 'e, 's) ApiMethodSpec \<Rightarrow> ('u, 'i, 'o, 'e, 's) ApiMethodSpec" where
  "createApiMethod spec = spec"

text \<open>
  A service is a JavaScript object. The \<^verbatim>\<open>in\<close> operator and the property read
  \<^verbatim>\<open>service[method]\<close> both follow the prototype chain, so the object is modelled with
  its own properties and its prototype. A property holds a method spec, or some other
  value that has no \<^verbatim>\<open>input\<close> property (the functions that every object literal
  inherits from \<^verbatim>\<open>Object.prototype\<close>).
\<close>

datatype 'sp property = Spec 'sp | Builtin

datatype 'sp jsobject =
  JSObject (own_properties: "(string \<times> 'sp property) list") (prototype: "'sp jsobject option")

type_synonym ('u, 'i, 'o, 'e, 's) ApiService = "('u, 'i, 'o, 'e, 's) ApiMethodSpec jsobject"

text \<open>\<^verbatim>\<open>key in obj\<close>\<close>

fun has_property :: "string \<Rightarrow> 'sp jsobject \<Rightarrow> bool" where
  "has_property k (JSObject ps None) = (map_of ps k \<noteq> None)"
| "has_property k (JSObject ps (Some p)) = (map_of ps k \<noteq> None \<or> has_property k p)"

text \<open>\<^verbatim>\<open>obj[key]\<close>, \<open>None\<close> for \<^verbatim>\<open>undefined\<close>\<close>

fun get :: "'sp jsobject \<Rightarrow> string \<Rightarrow> 'sp property option" where
  "get (JSObject ps None) k = map_of ps k"
| "get (JSObject ps (Some p)) k = (case map_of ps k of Some v \<Rightarrow> Some v | None \<Rightarrow> get p k)"

definition Object_prototype_keys :: "string list" where
  "Object_prototype_keys =
     [''constructor'', ''__defineGetter__'', ''__defineSetter__'', ''hasOwnProperty'',
      ''__lookupGetter__'', ''__lookupSetter__'', ''isPrototypeOf'',
      ''propertyIsEnumerable'', ''toString'', ''valueOf'', ''__proto__'',
      ''toLocaleString'']"

abbreviation Object_prototype :: "'sp jsobject" where
  "Object_prototype \<equiv> JSObject (map (\<lambda>k. (k, Builtin)) Object_prototype_keys) None"

text \<open>An object literal \<^verbatim>\<open>{ k1: v1, ... }\<close>: its prototype is \<^verbatim>\<open>Object.prototype\<close>.\<close>

definition object_literal :: "(string \<times> 'sp) list \<Rightarrow> 'sp jsobject" where
  "object_literal ps = JSObject (map (\<lambda>(k, sp). (k, Spec sp)) ps) (Some Object_prototype)"

text \<open>
  The outcome of one dispatch. The two \<^verbatim>\<open>throw new Error(...)\<close> sites of the dispatcher
  are \<open>Failure\<close> with the kind that names the site and the message of the error; a
  rejection of the implementation propagates unchanged; \<open>TypeError\<close> is what the
  runtime raises on \<^verbatim>\<open>spec.input.safeParse\<close> when \<^verbatim>\<open>spec.input\<close> is \<^verbatim>\<open>undefined\<close>.
\<close>

datatype kind = UnknownMethod | ValidationFailed

datatype ('o, 'e) outcome =
    Success 'o
  | Failure kind string
  | ImplementationError 'e
  | TypeError

definition callApiMethodSafe ::
  "('u, 'i, 'o, 'e, 's) ApiService \<Rightarrow> string \<Rightarrow> 'u \<Rightarrow> 's \<Rightarrow> ('o, 'e) outcome \<times> 's" where
  "callApiMethodSafe service meth inp s =
     (if \<not> has_property meth service
      then (Failure UnknownMethod (''Unrecognized method name '' @ meth), s)
      else
        (case get service meth of
           Some (Spec spec) \<Rightarrow>
             (case input spec inp of
                SafeParseError err \<Rightarrow>
                  (Failure ValidationFailed (''Validation failed: '' @ message err), s)
              | SafeParseSuccess d \<Rightarrow>
                  (case method spec d s of
                     (Inl e, s') \<Rightarrow> (ImplementationError e, s')
                   | (Inr out, s') \<Rightarrow> (Success out, s')))
         | _ \<Rightarrow> (TypeError, s)))"

section \<open>The math service\<close>

text \<open>
  \<^verbatim>\<open>input.augend + input.addend\<close>: the parameter type of the implementation is the
  schema's output type, an object with two number fields, so the operators are given
  on numbers only.
\<close>

fun number_of :: "'n jsval \<Rightarrow> 'n" where
  "number_of (JNum n) = n"

definition add :: "('n::{plus,ord} jsval, 'n jsval, 'n jsval, 'e, 's) ApiMethodSpec" where
  "add = createApiMethod
     \<lparr> input = safeParse (z_object [(''augend'', z_number), (''addend'', z_number)]),
       method = (\<lambda>inp. case inp of JObj ps \<Rightarrow>
         Promise_resolve
           (JObj [(''sum'', JNum (number_of (get_prop ps ''augend'') + number_of (get_prop ps ''addend'')))])) \<rparr>"

definition subtract :: "('n::{minus,ord} jsval, 'n jsval, 'n jsval, 'e, 's) ApiMethodSpec" where
  "subtract = createApiMethod
     \<lparr> input = safeParse (z_object [(''minuend'', z_number), (''subtrahend'', z_number)]),
       method = (\<lambda>inp. case inp of JObj ps \<Rightarrow>
         Promise_resolve
           (JObj [(''difference'', JNum (number_of (get_prop ps ''minuend'') - number_of (get_prop ps ''subtrahend'')))])) \<rparr>"

definition mathService :: "('n::{plus,minus,ord} jsval, 'n jsval, 'n jsval, 'e, 's) ApiService" where
  "mathService = object_literal [(''add'', add), (''subtract'', subtract)]"

section \<open>A service that counts its invocations\<close>

text \<open>
  A test double for the properties that speak of invocations. The world is a pair: a
  flag that says whether \<open>tick\<close> is registered, and the number of times the
  implementation of \<open>tick\<close> has run. Its validator accepts the numbers below ten and
  hands on the successor; its implementation doubles what it is given.
\<close>

definition tick :: "(nat, nat, nat, unit, bool \<times> nat) ApiMethodSpec" where
  "tick = createApiMethod
     \<lparr> input = (\<lambda>x. if x < 10 then SafeParseSuccess (Suc x)
                      else SafeParseError (ZodError [invalid_type T_number T_nan []])),
       method = (\<lambda>y w. (Inr (2 * y), (fst w, Suc (snd w)))) \<rparr>"

definition counterService :: "(nat, nat, nat, unit, bool \<times> nat) ApiService" where
  "counterService = object_literal [(''tick'', tick)]"


section \<open>A service whose method unregisters itself\<close>




section \<open>Property lookup\<close>

lemma has_property_get: "has_property k obj \<longleftrightarrow> get obj k \<noteq> None"
  by (induction k obj rule: has_property.induct) (auto split: option.splits)

lemma get_mathService_add: "get mathService ''add'' = Some (Spec add)"
  by (simp add: mathService_def object_literal_def)

lemma get_mathService_subtract: "get mathService ''subtract'' = Some (Spec subtract)"
  by (simp add: mathService_def object_literal_def)

lemma get_mathService_toString: "get mathService ''toString'' = Some Builtin"
  by (simp add: mathService_def object_literal_def Object_prototype_keys_def)

lemma get_counterService_tick: "get counterService ''tick'' = Some (Spec tick)"
  by (simp add: counterService_def object_literal_def)

lemma input_tick: "input tick x =
    (if x < 10 then SafeParseSuccess (Suc x)
     else SafeParseError (ZodError [invalid_type T_number T_nan []]))"
  by (simp add: tick_def createApiMethod_def)

lemma method_tick: "method tick y w = (Inr (2 * y), (fst w, Suc (snd w)))"
  by (simp add: tick_def createApiMethod_def)




section \<open>The three ways through the dispatcher\<close>

lemma dispatch_absent:
  "\<not> has_property m R \<Longrightarrow>
   callApiMethodSafe R m x s = (Failure UnknownMethod (''Unrecognized method name '' @ m), s)"
  by (simp add: callApiMethodSafe_def)

lemma dispatch_spec:
  "get R m = Some (Spec spec) \<Longrightarrow>
   callApiMethodSafe R m x s =
     (case input spec x of
        SafeParseError err \<Rightarrow>
          (Failure ValidationFailed (''Validation failed: '' @ message err), s)
      | SafeParseSuccess d \<Rightarrow>
          (case method spec d s of
             (Inl e, s') \<Rightarrow> (ImplementationError e, s')
           | (Inr out, s') \<Rightarrow> (Success out, s')))"
  by (simp add: callApiMethodSafe_def has_property_get)

lemma dispatch_builtin:
  "get R m = Some Builtin \<Longrightarrow> callApiMethodSafe R m x s = (TypeError, s)"
  by (simp add: callApiMethodSafe_def has_property_get)

text \<open>
  A name that is neither an own property of the service nor inherited is refused with
  the message of the source, and \<open>multiply\<close> is such a name on the math service.
\<close>

lemma dispatch_multiply:
  "callApiMethodSafe mathService ''multiply'' x s =
     (Failure UnknownMethod ''Unrecognized method name multiply'', s)"
  by (rule dispatch_absent [of "''multiply''", simplified])
    (simp add: mathService_def object_literal_def Object_prototype_keys_def)

text \<open>
  The order of the steps, read backwards: an outcome that comes from the
  implementation means that the lookup found a spec and that its validator accepted
  the input, and the implementation ran on the validator's output.
\<close>

lemma dispatch_invoked_after_validation:
  assumes "fst (callApiMethodSafe R m x s) = Success out
         \<or> fst (callApiMethodSafe R m x s) = ImplementationError e"
  shows "\<exists>spec y. get R m = Some (Spec spec) \<and> input spec x = SafeParseSuccess y
           \<and> snd (callApiMethodSafe R m x s) = snd (method spec y s)"
proof (cases "get R m")
  case None
  then have "\<not> has_property m R" by (simp add: has_property_get)
  with assms show ?thesis by (simp add: dispatch_absent)
next
  case (Some p)
  show ?thesis
  proof (cases p)
    case Builtin
    with Some assms show ?thesis by (simp add: dispatch_builtin)
  next
    case (Spec spec)
    with Some have g: "get R m = Some (Spec spec)" by simp
    show ?thesis
    proof (cases "input spec x")
      case (SafeParseError err)
      with assms g show ?thesis by (simp add: dispatch_spec)
    next
      case (SafeParseSuccess y)
      with g have "snd (callApiMethodSafe R m x s) = snd (method spec y s)"
        by (simp add: dispatch_spec split: prod.splits sum.splits)
      with g SafeParseSuccess show ?thesis by blast
    qed
  qed
qed

section \<open>The schemas of the math service\<close>

text \<open>A number schema accepts exactly the numbers that are not NaN, and hands them on
  unchanged.\<close>

lemma z_number_Inr: "z_number pth v = Inr w \<Longrightarrow> \<exists>n. v = JNum n \<and> w = JNum n \<and> \<not> isNaN n"
  by (cases v) (auto simp: z_number_def split: if_splits)

lemma z_number_Inl: "z_number pth v = Inl is \<Longrightarrow> is = [invalid_type T_number (getParsedType v) pth]"
  by (auto simp: z_number_def split: if_splits)

lemma z_number_JNum: "\<not> isNaN n \<Longrightarrow> z_number pth (JNum n) = Inr (JNum n)"
  by (simp add: z_number_def)

lemma two_numbers_depends:
  assumes "get_prop ps k1 = get_prop ps' k1" and "get_prop ps k2 = get_prop ps' k2"
  shows "safeParse (z_object [(k1, z_number), (k2, z_number)]) (JObj ps)
       = safeParse (z_object [(k1, z_number), (k2, z_number)]) (JObj ps')"
  using assms
  by (auto simp: safeParse_def z_object_def split: sum.splits dest!: z_number_Inr z_number_Inl)

lemma two_numbers_success:
  assumes "safeParse (z_object [(k1, z_number), (k2, z_number)]) (JObj ps) = SafeParseSuccess y"
      and "k1 \<noteq> ''__proto__''" and "k2 \<noteq> ''__proto__''"
  shows "\<exists>a b. get_prop ps k1 = JNum a \<and> get_prop ps k2 = JNum b \<and>
           y = JObj [(k1, JNum a), (k2, JNum b)]"
  using assms
  by (auto simp: safeParse_def z_object_def split: sum.splits if_splits
      dest!: z_number_Inr z_number_Inl)

lemma two_numbers_valid:
  assumes "get_prop ps k1 = JNum a" and "get_prop ps k2 = JNum b"
      and "\<not> isNaN a" and "\<not> isNaN b"
      and "k1 \<noteq> ''__proto__''" and "k2 \<noteq> ''__proto__''"
  shows "safeParse (z_object [(k1, z_number), (k2, z_number)]) (JObj ps)
           = SafeParseSuccess (JObj [(k1, JNum a), (k2, JNum b)])"
  using assms by (simp add: safeParse_def z_object_def z_number_JNum)

lemma two_numbers_invalid_first:
  assumes "get_prop ps k1 = v" and "getParsedType v \<noteq> T_number"
      and "get_prop ps k2 = JNum b" and "\<not> isNaN b"
  shows "safeParse (z_object [(k1, z_number), (k2, z_number)]) (JObj ps)
           = SafeParseError (ZodError [invalid_type T_number (getParsedType v) [k1]])"
  using assms by (simp add: safeParse_def z_object_def z_number_def)

lemma two_numbers_invalid_second:
  assumes "get_prop ps k1 = JNum a" and "\<not> isNaN a"
      and "get_prop ps k2 = v" and "getParsedType v \<noteq> T_number"
  shows "safeParse (z_object [(k1, z_number), (k2, z_number)]) (JObj ps)
           = SafeParseError (ZodError [invalid_type T_number (getParsedType v) [k2]])"
  using assms by (simp add: safeParse_def z_object_def z_number_def)

lemma input_add: "input add = safeParse (z_object [(''augend'', z_number), (''addend'', z_number)])"
  by (simp add: add_def createApiMethod_def)

lemma input_subtract:
  "input subtract = safeParse (z_object [(''minuend'', z_number), (''subtrahend'', z_number)])"
  by (simp add: subtract_def createApiMethod_def)

lemma method_add:
  "method add (JObj [(''augend'', JNum a), (''addend'', JNum b)]) s
     = (Inr (JObj [(''sum'', JNum (a + b))]), s)"
  by (simp add: add_def createApiMethod_def Promise_resolve_def get_prop_def)

lemma method_subtract:
  "method subtract (JObj [(''minuend'', JNum a), (''subtrahend'', JNum b)]) s
     = (Inr (JObj [(''difference'', JNum (a - b))]), s)"
  by (simp add: subtract_def createApiMethod_def Promise_resolve_def get_prop_def)

lemma real_not_NaN: "\<not> isNaN (r::real)"
  by (simp add: isNaN_def)

section \<open>Dispatching on the math service\<close>

lemma dispatch_add_numbers:
  assumes "get_prop ps ''augend'' = JNum a" and "get_prop ps ''addend'' = JNum b"
      and "\<not> isNaN a" and "\<not> isNaN b"
  shows "callApiMethodSafe mathService ''add'' (JObj ps) s
           = (Success (JObj [(''sum'', JNum (a + b))]), s)"
  using assms
  by (simp add: dispatch_spec [OF get_mathService_add] input_add two_numbers_valid method_add)

lemma dispatch_subtract_numbers:
  assumes "get_prop ps ''minuend'' = JNum a" and "get_prop ps ''subtrahend'' = JNum b"
      and "\<not> isNaN a" and "\<not> isNaN b"
  shows "callApiMethodSafe mathService ''subtract'' (JObj ps) s
           = (Success (JObj [(''difference'', JNum (a - b))]), s)"
  using assms
  by (simp add: dispatch_spec [OF get_mathService_subtract] input_subtract two_numbers_valid
      method_subtract)

lemma dispatch_add_parsed:
  assumes p: "safeParse (z_object [(''augend'', z_number), (''addend'', z_number)]) (JObj ps)
                = SafeParseSuccess y"
  shows "\<exists>a b. get_prop ps ''augend'' = JNum a \<and> get_prop ps ''addend'' = JNum b
           \<and> y = JObj [(''augend'', JNum a), (''addend'', JNum b)]
           \<and> callApiMethodSafe mathService ''add'' (JObj ps) s
               = (Success (JObj [(''sum'', JNum (a + b))]), s)"
proof -
  have "\<exists>a b. get_prop ps ''augend'' = JNum a \<and> get_prop ps ''addend'' = JNum b \<and>
           y = JObj [(''augend'', JNum a), (''addend'', JNum b)]"
    by (rule two_numbers_success [OF p]) simp_all
  then obtain a b where
    ab: "get_prop ps ''augend'' = JNum a" "get_prop ps ''addend'' = JNum b"
        "y = JObj [(''augend'', JNum a), (''addend'', JNum b)]"
    by blast
  have "callApiMethodSafe mathService ''add'' (JObj ps) s
               = (Success (JObj [(''sum'', JNum (a + b))]), s)"
    unfolding dispatch_spec [OF get_mathService_add] input_add p ab(3)
    by (simp add: method_add)
  with ab show ?thesis
    by blast
qed

lemma dispatch_subtract_parsed:
  assumes p: "safeParse (z_object [(''minuend'', z_number), (''subtrahend'', z_number)]) (JObj qs)
                = SafeParseSuccess z"
  shows "\<exists>a b. get_prop qs ''minuend'' = JNum a \<and> get_prop qs ''subtrahend'' = JNum b
           \<and> z = JObj [(''minuend'', JNum a), (''subtrahend'', JNum b)]
           \<and> callApiMethodSafe mathService ''subtract'' (JObj qs) s
               = (Success (JObj [(''difference'', JNum (a - b))]), s)"
proof -
  have "\<exists>a b. get_prop qs ''minuend'' = JNum a \<and> get_prop qs ''subtrahend'' = JNum b \<and>
           z = JObj [(''minuend'', JNum a), (''subtrahend'', JNum b)]"
    by (rule two_numbers_success [OF p]) simp_all
  then obtain a b where
    ab: "get_prop qs ''minuend'' = JNum a" "get_prop qs ''subtrahend'' = JNum b"
        "z = JObj [(''minuend'', JNum a), (''subtrahend'', JNum b)]"
    by blast
  have "callApiMethodSafe mathService ''subtract'' (JObj qs) s
               = (Success (JObj [(''difference'', JNum (a - b))]), s)"
    unfolding dispatch_spec [OF get_mathService_subtract] input_subtract p ab(3)
    by (simp add: method_subtract)
  with ab show ?thesis
    by blast
qed

lemma dispatch_add_depends:
  assumes "get_prop ps ''augend'' = get_prop ps' ''augend''"
      and "get_prop ps ''addend'' = get_prop ps' ''addend''"
  shows "callApiMethodSafe mathService ''add'' (JObj ps) s
          = callApiMethodSafe mathService ''add'' (JObj ps') s"
  unfolding dispatch_spec [OF get_mathService_add] input_add
    two_numbers_depends [OF assms] ..

lemma dispatch_subtract_depends:
  assumes "get_prop qs ''minuend'' = get_prop qs' ''minuend''"
      and "get_prop qs ''subtrahend'' = get_prop qs' ''subtrahend''"
  shows "callApiMethodSafe mathService ''subtract'' (JObj qs) s
          = callApiMethodSafe mathService ''subtract'' (JObj qs') s"
  unfolding dispatch_spec [OF get_mathService_subtract] input_subtract
    two_numbers_depends [OF assms] ..

section \<open>The claims\<close>

text \<open>
  Claim C1. A method name that is not a registered key of the registry is to be refused
  with \<open>Failure UnknownMethod\<close> and the message \<^verbatim>\<open>Unrecognized method name {m}\<close>.
  The guard of the dispatcher is \<^verbatim>\<open>method in service\<close>, which is also true of the
  names an object literal inherits. On the math service the name \<^verbatim>\<open>toString\<close> is not
  one of the registered keys \<^verbatim>\<open>add\<close> and \<^verbatim>\<open>subtract\<close>, it passes the guard, and the
  dispatch ends in the runtime's \<open>TypeError\<close>, not in \<open>Failure UnknownMethod\<close>.
  (For a name that is neither registered nor inherited, such as \<^verbatim>\<open>multiply\<close>, the
  refusal is as claimed: \<open>dispatch_absent\<close>, \<open>dispatch_multiply\<close>.)
\<close>

theorem mathService_toString_TypeError:
  "map fst (own_properties mathService) = [''add'', ''subtract''] \<and>
   callApiMethodSafe mathService ''toString'' (JObj [(''a'', JNum (1::real)), (''b'', JNum 2)]) s
     = (TypeError, s)"
proof
  show "map fst (own_properties mathService) = [''add'', ''subtract'']"
    by (simp add: mathService_def object_literal_def)
  show "callApiMethodSafe mathService ''toString'' (JObj [(''a'', JNum (1::real)), (''b'', JNum 2)]) s
     = (TypeError, s)"
    by (rule dispatch_builtin) (rule get_mathService_toString)
qed

text \<open>
  Claim C2. For a registered method \<open>m\<close> (reading \<^verbatim>\<open>service[m]\<close> gives the spec) whose
  validator accepts the input \<open>x\<close> with the typed value \<open>y\<close>, the dispatch runs the
  implementation on \<open>y\<close> exactly once and returns \<open>Success\<close> of its output: the
  outcome is the output of the one run, and the world after the dispatch is the world
  after that one run from the world before.
\<close>

theorem dispatch_valid_invokes_once:
  assumes "get R m = Some (Spec spec)"
      and "input spec x = SafeParseSuccess y"
      and "method spec y s = (Inr out, s')"
  shows "callApiMethodSafe R m x s = (Success out, s')"
  using assms by (simp add: dispatch_spec)

text \<open>On the counting service one dispatch of \<open>tick\<close> moves the counter from 0 to 1.\<close>

theorem dispatch_valid_invokes_once_witness:
  "get counterService ''tick'' = Some (Spec tick) \<and>
   input tick 3 = SafeParseSuccess 4 \<and>
   method tick 4 (True, 0) = (Inr 8, (True, 1)) \<and>
   callApiMethodSafe counterService ''tick'' 3 (True, 0) = (Success 8, (True, 1))"
proof -
  have g: "get counterService ''tick'' = Some (Spec tick)"
    by (rule get_counterService_tick)
  have v: "input tick 3 = SafeParseSuccess 4"
    by (simp add: input_tick)
  have f: "method tick 4 (True, 0) = (Inr 8, (True, 1))"
    by (simp add: method_tick)
  from dispatch_valid_invokes_once [OF g v f] g v f show ?thesis
    by simp
qed

text \<open>
  Claim C3. For a registered method whose validator rejects the input, the dispatch
  yields \<open>Failure ValidationFailed\<close> with a message made from the message of the
  validator's error, and the implementation is not invoked: whatever the
  implementation would do, the world is left as it was. The steps follow one another
  as lookup, validation, invocation: the validator is the one the lookup found, and an
  outcome of the implementation presupposes both earlier steps
  (\<open>dispatch_invoked_after_validation\<close>).
\<close>

theorem dispatch_invalid_never_invokes:
  assumes "get R m = Some (Spec spec)"
      and "input spec x = SafeParseError err"
  shows "callApiMethodSafe R m x s
           = (Failure ValidationFailed (''Validation failed: '' @ message err), s)"
  using assms by (simp add: dispatch_spec)

text \<open>On the counting service a rejected input leaves the counter at 0.\<close>

theorem dispatch_invalid_never_invokes_witness:
  "get counterService ''tick'' = Some (Spec tick) \<and>
   input tick 10 = SafeParseError (ZodError [invalid_type T_number T_nan []]) \<and>
   callApiMethodSafe counterService ''tick'' 10 (True, 0)
     = (Failure ValidationFailed
         (''Validation failed: '' @ message (ZodError [invalid_type T_number T_nan []])),
        (True, 0))"
proof -
  have g: "get counterService ''tick'' = Some (Spec tick)"
    by (rule get_counterService_tick)
  have v: "input tick 10 = SafeParseError (ZodError [invalid_type T_number T_nan []])"
    by (simp add: input_tick)
  from dispatch_invalid_never_invokes [OF g v] g v show ?thesis
    by simp
qed

text \<open>
  Claim C4. On the math service, \<^verbatim>\<open>add\<close> with \<^verbatim>\<open>{augend: "two", addend: 2}\<close> fails
  validation (the augend is a string, not a number), and \<^verbatim>\<open>add\<close> with
  \<^verbatim>\<open>{augend: 2}\<close> fails validation (the addend is missing).
\<close>

theorem add_rejects_invalid_input:
  "callApiMethodSafe mathService ''add'' (JObj [(''augend'', JStr ''two''), (''addend'', JNum (2::real))]) s
     = (Failure ValidationFailed
         (''Validation failed: '' @ message (ZodError [invalid_type T_number T_string [''augend'']])), s)
   \<and> callApiMethodSafe mathService ''add'' (JObj [(''augend'', JNum (2::real))]) s'
     = (Failure ValidationFailed
         (''Validation failed: '' @ message (ZodError [invalid_type T_number T_undefined [''addend'']])), s')"
proof
  show "callApiMethodSafe mathService ''add'' (JObj [(''augend'', JStr ''two''), (''addend'', JNum (2::real))]) s
     = (Failure ValidationFailed
         (''Validation failed: '' @ message (ZodError [invalid_type T_number T_string [''augend'']])), s)"
    using two_numbers_invalid_first [of "[(''augend'', JStr ''two''), (''addend'', JNum (2::real))]"
        "''augend''" "JStr ''two''" "''addend''" 2]
    by (simp add: dispatch_spec [OF get_mathService_add] input_add get_prop_def real_not_NaN)
  show "callApiMethodSafe mathService ''add'' (JObj [(''augend'', JNum (2::real))]) s'
     = (Failure ValidationFailed
         (''Validation failed: '' @ message (ZodError [invalid_type T_number T_undefined [''addend'']])), s')"
    using two_numbers_invalid_second [of "[(''augend'', JNum (2::real))]"
        "''augend''" 2 "''addend''" JUndefined]
    by (simp add: dispatch_spec [OF get_mathService_add] input_add get_prop_def real_not_NaN)
qed

text \<open>
  Claim C5. On the math service, \<^verbatim>\<open>add\<close> with \<^verbatim>\<open>{augend: 2, addend: 2}\<close> yields
  \<^verbatim>\<open>Success({sum: 4})\<close>; and for all numbers \<open>a\<close> and \<open>b\<close> the implementation of
  \<^verbatim>\<open>add\<close> on \<^verbatim>\<open>{augend: a, addend: b}\<close> returns \<^verbatim>\<open>{sum: a + b}\<close>.
\<close>

theorem add_returns_sum:
  "callApiMethodSafe mathService ''add'' (JObj [(''augend'', JNum (2::real)), (''addend'', JNum 2)]) s
     = (Success (JObj [(''sum'', JNum 4)]), s)
   \<and> (\<forall>a b. method add (JObj [(''augend'', JNum a), (''addend'', JNum b)]) s'
               = (Inr (JObj [(''sum'', JNum (a + b))]), s'))"
proof
  show "callApiMethodSafe mathService ''add'' (JObj [(''augend'', JNum (2::real)), (''addend'', JNum 2)]) s
     = (Success (JObj [(''sum'', JNum 4)]), s)"
    using dispatch_add_numbers [of "[(''augend'', JNum (2::real)), (''addend'', JNum 2)]" 2 2 s]
    by (simp add: get_prop_def real_not_NaN)
  show "\<forall>a b. method add (JObj [(''augend'', JNum a), (''addend'', JNum b)]) s'
               = (Inr (JObj [(''sum'', JNum (a + b))]), s')"
    by (simp add: method_add)
qed

text \<open>
  Claim C6. On the math service, \<^verbatim>\<open>subtract\<close> with \<^verbatim>\<open>{minuend: 10, subtrahend: 3}\<close>
  yields \<^verbatim>\<open>Success({difference: 7})\<close>; and for all numbers \<open>a\<close> and \<open>b\<close> the
  implementation of \<^verbatim>\<open>subtract\<close> on \<^verbatim>\<open>{minuend: a, subtrahend: b}\<close> returns
  \<^verbatim>\<open>{difference: a - b}\<close>.
\<close>

theorem subtract_returns_difference:
  "callApiMethodSafe mathService ''subtract'' (JObj [(''minuend'', JNum (10::real)), (''subtrahend'', JNum 3)]) s
     = (Success (JObj [(''difference'', JNum 7)]), s)
   \<and> (\<forall>a b. method subtract (JObj [(''minuend'', JNum a), (''subtrahend'', JNum b)]) s'
               = (Inr (JObj [(''difference'', JNum (a - b))]), s'))"
proof
  show "callApiMethodSafe mathService ''subtract'' (JObj [(''minuend'', JNum (10::real)), (''subtrahend'', JNum 3)]) s
     = (Success (JObj [(''difference'', JNum 7)]), s)"
    using dispatch_subtract_numbers [of "[(''minuend'', JNum (10::real)), (''subtrahend'', JNum 3)]" 10 3 s]
    by (simp add: get_prop_def real_not_NaN)
  show "\<forall>a b. method subtract (JObj [(''minuend'', JNum a), (''subtrahend'', JNum b)]) s'
               = (Inr (JObj [(''difference'', JNum (a - b))]), s')"
    by (simp add: method_subtract)
qed

text \<open>
  Claim C7. Lookup and validation are pure and deterministic: when a dispatch fails
  with \<open>UnknownMethod\<close> or \<open>ValidationFailed\<close>, it leaves the world as it was, and a
  second run of the same dispatch, in whatever world, fails with the same kind and the
  same message.
\<close>

theorem dispatch_failure_same_in_every_world:
  assumes "fst (callApiMethodSafe R m x s) = Failure k msg"
  shows "callApiMethodSafe R m x s = (Failure k msg, s)
       \<and> callApiMethodSafe R m x s' = (Failure k msg, s')"
proof (cases "get R m")
  case None
  then have "\<not> has_property m R" by (simp add: has_property_get)
  with assms show ?thesis by (simp add: dispatch_absent)
next
  case (Some p)
  show ?thesis
  proof (cases p)
    case Builtin
    with Some assms show ?thesis by (simp add: dispatch_builtin)
  next
    case (Spec spec)
    with Some have g: "get R m = Some (Spec spec)" by simp
    show ?thesis
    proof (cases "input spec x")
      case (SafeParseError err)
      with assms g show ?thesis by (simp add: dispatch_spec)
    next
      case (SafeParseSuccess y)
      with assms g have False
        by (simp add: dispatch_spec split: prod.splits sum.splits)
      then show ?thesis ..
    qed
  qed
qed

text \<open>On the counting service the rejected input 10 fails alike in two different worlds.\<close>

theorem dispatch_failure_same_in_every_world_witness:
  "fst (callApiMethodSafe counterService ''tick'' 10 (True, 0))
     = Failure ValidationFailed
         (''Validation failed: '' @ message (ZodError [invalid_type T_number T_nan []]))
   \<and> callApiMethodSafe counterService ''tick'' 10 (True, 0)
     = (Failure ValidationFailed
         (''Validation failed: '' @ message (ZodError [invalid_type T_number T_nan []])), (True, 0))
   \<and> callApiMethodSafe counterService ''tick'' 10 (False, 7)
     = (Failure ValidationFailed
         (''Validation failed: '' @ message (ZodError [invalid_type T_number T_nan []])), (False, 7))"
proof -
  have h: "fst (callApiMethodSafe counterService ''tick'' 10 (True, 0))
     = Failure ValidationFailed
         (''Validation failed: '' @ message (ZodError [invalid_type T_number T_nan []]))"
    by (simp add: dispatch_spec [OF get_counterService_tick] input_tick)
  from dispatch_failure_same_in_every_world [OF h, of "(False, 7)"] h show ?thesis
    by simp
qed




text \<open>
  Claim C9. On validation success the implementation runs on the validator's output,
  not on the raw input. The validators of \<^verbatim>\<open>add\<close> and \<^verbatim>\<open>subtract\<close> are object
  schemas: their output on an accepted object holds the two declared fields and
  nothing else, the result is computed from these two numbers, and two input objects
  that agree on the declared fields are dispatched to the same outcome. So \<^verbatim>\<open>add\<close>
  with \<^verbatim>\<open>{augend: 2, addend: 2, extra: 1}\<close> yields \<^verbatim>\<open>Success({sum: 4})\<close>.
\<close>

theorem math_inputs_stripped:
  "(get R m = Some (Spec spec) \<and> input spec x = SafeParseSuccess d \<longrightarrow>
      callApiMethodSafe R m x w =
        (case method spec d w of
           (Inl e, w') \<Rightarrow> (ImplementationError e, w')
         | (Inr out, w') \<Rightarrow> (Success out, w')))
   \<and> (safeParse (z_object [(''augend'', z_number), (''addend'', z_number)]) (JObj ps) = SafeParseSuccess y \<longrightarrow>
        (\<exists>a b. get_prop ps ''augend'' = JNum a \<and> get_prop ps ''addend'' = JNum b
           \<and> y = JObj [(''augend'', JNum a), (''addend'', JNum b)]
           \<and> callApiMethodSafe mathService ''add'' (JObj ps) s
               = (Success (JObj [(''sum'', JNum (a + b))]), s)))
   \<and> (safeParse (z_object [(''minuend'', z_number), (''subtrahend'', z_number)]) (JObj qs) = SafeParseSuccess z \<longrightarrow>
        (\<exists>a b. get_prop qs ''minuend'' = JNum a \<and> get_prop qs ''subtrahend'' = JNum b
           \<and> z = JObj [(''minuend'', JNum a), (''subtrahend'', JNum b)]
           \<and> callApiMethodSafe mathService ''subtract'' (JObj qs) s
               = (Success (JObj [(''difference'', JNum (a - b))]), s)))
   \<and> (get_prop ps ''augend'' = get_prop ps' ''augend''
        \<and> get_prop ps ''addend'' = get_prop ps' ''addend'' \<longrightarrow>
        callApiMethodSafe mathService ''add'' (JObj ps) s
          = callApiMethodSafe mathService ''add'' (JObj ps') s)
   \<and> (get_prop qs ''minuend'' = get_prop qs' ''minuend''
        \<and> get_prop qs ''subtrahend'' = get_prop qs' ''subtrahend'' \<longrightarrow>
        callApiMethodSafe mathService ''subtract'' (JObj qs) s
          = callApiMethodSafe mathService ''subtract'' (JObj qs') s)
   \<and> callApiMethodSafe mathService ''add''
        (JObj [(''augend'', JNum (2::real)), (''addend'', JNum 2), (''extra'', JNum 1)]) t
        = (Success (JObj [(''sum'', JNum 4)]), t)"
proof (intro conjI impI)
  assume "get R m = Some (Spec spec) \<and> input spec x = SafeParseSuccess d"
  then show "callApiMethodSafe R m x w =
        (case method spec d w of
           (Inl e, w') \<Rightarrow> (ImplementationError e, w')
         | (Inr out, w') \<Rightarrow> (Success out, w'))"
    by (simp add: dispatch_spec)
next
  assume "safeParse (z_object [(''augend'', z_number), (''addend'', z_number)]) (JObj ps) = SafeParseSuccess y"
  then show "\<exists>a b. get_prop ps ''augend'' = JNum a \<and> get_prop ps ''addend'' = JNum b
           \<and> y = JObj [(''augend'', JNum a), (''addend'', JNum b)]
           \<and> callApiMethodSafe mathService ''add'' (JObj ps) s
               = (Success (JObj [(''sum'', JNum (a + b))]), s)"
    by (rule dispatch_add_parsed)
next
  assume "safeParse (z_object [(''minuend'', z_number), (''subtrahend'', z_number)]) (JObj qs) = SafeParseSuccess z"
  then show "\<exists>a b. get_prop qs ''minuend'' = JNum a \<and> get_prop qs ''subtrahend'' = JNum b
           \<and> z = JObj [(''minuend'', JNum a), (''subtrahend'', JNum b)]
           \<and> callApiMethodSafe mathService ''subtract'' (JObj qs) s
               = (Success (JObj [(''difference'', JNum (a - b))]), s)"
    by (rule dispatch_subtract_parsed)
next
  assume "get_prop ps ''augend'' = get_prop ps' ''augend''
        \<and> get_prop ps ''addend'' = get_prop ps' ''addend''"
  then show "callApiMethodSafe mathService ''add'' (JObj ps) s
          = callApiMethodSafe mathService ''add'' (JObj ps') s"
    by (intro dispatch_add_depends) simp_all
next
  assume "get_prop qs ''minuend'' = get_prop qs' ''minuend''
        \<and> get_prop qs ''subtrahend'' = get_prop qs' ''subtrahend''"
  then show "callApiMethodSafe mathService ''subtract'' (JObj qs) s
          = callApiMethodSafe mathService ''subtract'' (JObj qs') s"
    by (intro dispatch_subtract_depends) simp_all
next
  show "callApiMethodSafe mathService ''add''
        (JObj [(''augend'', JNum (2::real)), (''addend'', JNum 2), (''extra'', JNum 1)]) t
        = (Success (JObj [(''sum'', JNum 4)]), t)"
    using dispatch_add_numbers
      [of "[(''augend'', JNum (2::real)), (''addend'', JNum 2), (''extra'', JNum 1)]" 2 2 t]
    by (simp add: get_prop_def real_not_NaN)
qed

text \<open>The input with the extra field is parsed to the two declared fields and is
  dispatched as the input without it.\<close>

theorem math_inputs_stripped_witness:
  "get (mathService :: (real jsval, real jsval, real jsval, unit, unit) ApiService) ''add''
     = Some (Spec add)
   \<and> input (add :: (real jsval, real jsval, real jsval, unit, unit) ApiMethodSpec)
        (JObj [(''augend'', JNum 2), (''addend'', JNum 2), (''extra'', JNum 1)])
     = SafeParseSuccess (JObj [(''augend'', JNum 2), (''addend'', JNum 2)])
   \<and> safeParse (z_object [(''minuend'', z_number), (''subtrahend'', z_number)])
        (JObj [(''minuend'', JNum (10::real)), (''subtrahend'', JNum 3), (''extra'', JNum 1)])
     = SafeParseSuccess (JObj [(''minuend'', JNum 10), (''subtrahend'', JNum 3)])
   \<and> callApiMethodSafe (mathService :: (real jsval, real jsval, real jsval, unit, unit) ApiService)
        ''add'' (JObj [(''augend'', JNum 2), (''addend'', JNum 2), (''extra'', JNum 1)]) ()
     = (case method (add :: (real jsval, real jsval, real jsval, unit, unit) ApiMethodSpec)
               (JObj [(''augend'', JNum 2), (''addend'', JNum 2)]) () of
          (Inl e, w') \<Rightarrow> (ImplementationError e, w')
        | (Inr out, w') \<Rightarrow> (Success out, w'))
   \<and> callApiMethodSafe (mathService :: (real jsval, real jsval, real jsval, unit, unit) ApiService)
        ''add'' (JObj [(''augend'', JNum 2), (''addend'', JNum 2), (''extra'', JNum 1)]) ()
     = callApiMethodSafe mathService ''add'' (JObj [(''augend'', JNum 2), (''addend'', JNum 2)]) ()
   \<and> callApiMethodSafe (mathService :: (real jsval, real jsval, real jsval, unit, unit) ApiService)
        ''subtract'' (JObj [(''minuend'', JNum 10), (''subtrahend'', JNum 3), (''extra'', JNum 1)]) ()
     = callApiMethodSafe mathService ''subtract'' (JObj [(''minuend'', JNum 10), (''subtrahend'', JNum 3)]) ()
   \<and> callApiMethodSafe (mathService :: (real jsval, real jsval, real jsval, unit, unit) ApiService)
        ''add'' (JObj [(''augend'', JNum 2), (''addend'', JNum 2), (''extra'', JNum 1)]) ()
     = (Success (JObj [(''sum'', JNum 4)]), ())"
proof -
  let ?ps = "[(''augend'', JNum (2::real)), (''addend'', JNum 2), (''extra'', JNum 1)]"
  let ?ps' = "[(''augend'', JNum (2::real)), (''addend'', JNum 2)]"
  let ?qs = "[(''minuend'', JNum (10::real)), (''subtrahend'', JNum 3), (''extra'', JNum 1)]"
  let ?qs' = "[(''minuend'', JNum (10::real)), (''subtrahend'', JNum 3)]"
  let ?R = "mathService :: (real jsval, real jsval, real jsval, unit, unit) ApiService"
  let ?add = "add :: (real jsval, real jsval, real jsval, unit, unit) ApiMethodSpec"
  note T = math_inputs_stripped [where R = ?R and m = "''add''" and spec = ?add
      and x = "JObj ?ps" and d = "JObj ?ps'" and w = "()" and ps = ?ps and y = "JObj ?ps'"
      and s = "()" and qs = ?qs and z = "JObj ?qs'" and ps' = ?ps' and qs' = ?qs' and t = "()"]
  have g: "get ?R ''add'' = Some (Spec ?add)"
    by (rule get_mathService_add)
  have pa: "safeParse (z_object [(''augend'', z_number), (''addend'', z_number)]) (JObj ?ps)
              = SafeParseSuccess (JObj ?ps')"
    by (rule two_numbers_valid) (simp_all add: get_prop_def real_not_NaN)
  then have ia: "input ?add (JObj ?ps) = SafeParseSuccess (JObj ?ps')"
    by (simp only: input_add)
  have ps: "safeParse (z_object [(''minuend'', z_number), (''subtrahend'', z_number)]) (JObj ?qs)
              = SafeParseSuccess (JObj ?qs')"
    by (rule two_numbers_valid) (simp_all add: get_prop_def real_not_NaN)
  have da: "get_prop ?ps ''augend'' = get_prop ?ps' ''augend''
        \<and> get_prop ?ps ''addend'' = get_prop ?ps' ''addend''"
    by (simp add: get_prop_def)
  have ds: "get_prop ?qs ''minuend'' = get_prop ?qs' ''minuend''
        \<and> get_prop ?qs ''subtrahend'' = get_prop ?qs' ''subtrahend''"
    by (simp add: get_prop_def)
  from T g ia have c1: "callApiMethodSafe ?R ''add'' (JObj ?ps) ()
     = (case method ?add (JObj ?ps') () of
          (Inl e, w') \<Rightarrow> (ImplementationError e, w')
        | (Inr out, w') \<Rightarrow> (Success out, w'))"
    by blast
  from T da have c2: "callApiMethodSafe ?R ''add'' (JObj ?ps) ()
     = callApiMethodSafe ?R ''add'' (JObj ?ps') ()"
    by blast
  from T ds have c3: "callApiMethodSafe ?R ''subtract'' (JObj ?qs) ()
     = callApiMethodSafe ?R ''subtract'' (JObj ?qs') ()"
    by blast
  from T have c4: "callApiMethodSafe ?R ''add'' (JObj ?ps) () = (Success (JObj [(''sum'', JNum 4)]), ())"
    by blast
  from g ia ps c1 c2 c3 c4 show ?thesis
    by (intro conjI)
qed

end
